theory Spec2Isabelle
  imports Main "HOL-Library.Char_ord" "HOL-Library.List_Lexorder"
begin

unbundle bit_operations_syntax

section \<open>Library functions used by the audit trail\<close>

subsection \<open>SHA-256 (\<open>hashlib.sha256(...).hexdigest()\<close>, FIPS 180-4)\<close>

text \<open>
  32-bit words are integers from 0 up to \<open>2 ^ 32 - 1\<close>, with the wrap-around of every
  addition written out. A message is a list of bytes, each an integer from 0 to 255.
\<close>

definition add32 :: "int \<Rightarrow> int \<Rightarrow> int" where
  "add32 a b = (a + b) mod 2 ^ 32"

definition rotr :: "nat \<Rightarrow> int \<Rightarrow> int" where
  "rotr n x = x div 2 ^ n + (x mod 2 ^ n) * 2 ^ (32 - n)"

definition shr :: "nat \<Rightarrow> int \<Rightarrow> int" where
  "shr n x = x div 2 ^ n"

definition not32 :: "int \<Rightarrow> int" where
  "not32 x = x XOR 4294967295"

definition ch :: "int \<Rightarrow> int \<Rightarrow> int \<Rightarrow> int" where
  "ch x y z = (x AND y) XOR (not32 x AND z)"

definition maj :: "int \<Rightarrow> int \<Rightarrow> int \<Rightarrow> int" where
  "maj x y z = (x AND y) XOR (x AND z) XOR (y AND z)"

definition bsig0 :: "int \<Rightarrow> int" where
  "bsig0 x = rotr 2 x XOR rotr 13 x XOR rotr 22 x"

definition bsig1 :: "int \<Rightarrow> int" where
  "bsig1 x = rotr 6 x XOR rotr 11 x XOR rotr 25 x"

definition ssig0 :: "int \<Rightarrow> int" where
  "ssig0 x = rotr 7 x XOR rotr 18 x XOR shr 3 x"

definition ssig1 :: "int \<Rightarrow> int" where
  "ssig1 x = rotr 17 x XOR rotr 19 x XOR shr 10 x"

definition K256 :: "int list" where
  "K256 = [
   1116352408, 1899447441, 3049323471, 3921009573, 961987163, 1508970993, 2453635748, 2870763221,
   3624381080, 310598401, 607225278, 1426881987, 1925078388, 2162078206, 2614888103, 3248222580,
   3835390401, 4022224774, 264347078, 604807628, 770255983, 1249150122, 1555081692, 1996064986,
   2554220882, 2821834349, 2952996808, 3210313671, 3336571891, 3584528711, 113926993, 338241895,
   666307205, 773529912, 1294757372, 1396182291, 1695183700, 1986661051, 2177026350, 2456956037,
   2730485921, 2820302411, 3259730800, 3345764771, 3516065817, 3600352804, 4094571909, 275423344,
   430227734, 506948616, 659060556, 883997877, 958139571, 1322822218, 1537002063, 1747873779,
   1955562222, 2024104815, 2227730452, 2361852424, 2428436474, 2756734187, 3204031479, 3329325298]"

definition H256 :: "int list" where
  "H256 = [1779033703, 3144134277, 1013904242, 2773480762,
           1359893119, 2600822924, 528734635, 1541459225]"

text \<open>
  The message schedule, newest word first: \<open>W[t]\<close> is computed from \<open>W[t-2]\<close>,
  \<open>W[t-7]\<close>, \<open>W[t-15]\<close> and \<open>W[t-16]\<close>.
\<close>

definition next_w :: "int list \<Rightarrow> int" where
  "next_w rw = add32 (add32 (add32 (ssig1 (rw ! 1)) (rw ! 6)) (ssig0 (rw ! 14))) (rw ! 15)"

fun sha_extend :: "nat \<Rightarrow> int list \<Rightarrow> int list" where
  "sha_extend 0 rw = rw"
| "sha_extend (Suc n) rw = sha_extend n (next_w rw # rw)"

definition schedule :: "int list \<Rightarrow> int list" where
  "schedule blk = rev (sha_extend 48 (rev blk))"

text \<open>One round on the working variables \<open>[a, b, c, d, e, f, g, h]\<close>.\<close>

definition sha_t1 :: "int list \<Rightarrow> int \<Rightarrow> int \<Rightarrow> int" where
  "sha_t1 s k w =
     add32 (add32 (add32 (add32 (s ! 7) (bsig1 (s ! 4))) (ch (s ! 4) (s ! 5) (s ! 6))) k) w"

definition sha_t2 :: "int list \<Rightarrow> int" where
  "sha_t2 s = add32 (bsig0 (s ! 0)) (maj (s ! 0) (s ! 1) (s ! 2))"

definition sha_shift :: "int list \<Rightarrow> int \<Rightarrow> int \<Rightarrow> int list" where
  "sha_shift s t1 t2 =
     [add32 t1 t2, s ! 0, s ! 1, s ! 2, add32 (s ! 3) t1, s ! 4, s ! 5, s ! 6]"

definition sha_round :: "int list \<Rightarrow> int \<times> int \<Rightarrow> int list" where
  "sha_round s kw = sha_shift s (sha_t1 s (fst kw) (snd kw)) (sha_t2 s)"

definition compress :: "int list \<Rightarrow> int list \<Rightarrow> int list" where
  "compress s blk = map2 add32 s (foldl sha_round s (zip K256 (schedule blk)))"

fun be_words :: "int list \<Rightarrow> int list" where
  "be_words (b0 # b1 # b2 # b3 # bs) = (((b0 * 256 + b1) * 256 + b2) * 256 + b3) # be_words bs"
| "be_words bs = []"

definition be_bytes8 :: "int \<Rightarrow> int list" where
  "be_bytes8 n = map (\<lambda>i. (n div 256 ^ i) mod 256) [7, 6, 5, 4, 3, 2, 1, 0]"

definition sha_pad :: "int list \<Rightarrow> int list" where
  "sha_pad m = m @ [128] @ replicate ((119 - length m mod 64) mod 64) 0
                 @ be_bytes8 (8 * int (length m))"

fun sha_blocks :: "int list \<Rightarrow> int list \<Rightarrow> int list" where
  "sha_blocks s (w0 # w1 # w2 # w3 # w4 # w5 # w6 # w7 # w8 # w9 # w10 # w11 # w12 # w13 # w14 # w15 # ws) =
     sha_blocks (compress s [w0, w1, w2, w3, w4, w5, w6, w7, w8, w9, w10, w11, w12, w13, w14, w15]) ws"
| "sha_blocks s ws = s"

definition hex_digit :: "int \<Rightarrow> char" where
  "hex_digit n = ''0123456789abcdef'' ! nat (n mod 16)"

definition hex_word :: "int \<Rightarrow> string" where
  "hex_word w = map (\<lambda>i. hex_digit (w div 16 ^ i)) [7, 6, 5, 4, 3, 2, 1, 0]"

definition sha256_hex :: "int list \<Rightarrow> string" where
  "sha256_hex m = concat (map hex_word (sha_blocks H256 (be_words (sha_pad m))))"

subsection \<open>Strings\<close>

text \<open>
  A Python \<open>str\<close> is modelled as a \<open>string\<close> whose characters are the code points
  U+0000 to U+00FF. \<open>str.encode()\<close> is UTF-8: one byte below 128, two bytes above.
\<close>

definition utf8_char :: "char \<Rightarrow> int list" where
  "utf8_char c = (let n = of_char c in if n < 128 then [n] else [192 + n div 64, 128 + n mod 64])"

definition encode :: "string \<Rightarrow> int list" where
  "encode s = concat (map utf8_char s)"

text \<open>\<open>str(n)\<close> for a non-negative integer.\<close>

definition digit_char :: "nat \<Rightarrow> char" where
  "digit_char n = ''0123456789'' ! (n mod 10)"

function string_of_nat :: "nat \<Rightarrow> string" where
  "string_of_nat n =
     (if n < 10 then [digit_char n] else string_of_nat (n div 10) @ [digit_char (n mod 10)])"
  by pat_completeness auto
termination
  by (relation "measure id") auto

declare string_of_nat.simps [simp del]

text \<open>\<open>sep.join(parts)\<close>.\<close>

fun join :: "string \<Rightarrow> string list \<Rightarrow> string" where
  "join sep [] = []"
| "join sep [x] = x"
| "join sep (x # y # ys) = x @ sep @ join sep (y # ys)"

subsection \<open>\<open>json.dumps(d, sort_keys=True)\<close> on a flat dictionary\<close>

text \<open>
  The encoder's defaults: \<open>ensure_ascii=True\<close>, item separator \<open>", "\<close>, key separator
  \<open>": "\<close>. A string is quoted; the quote and the backslash are escaped with a backslash,
  the control characters BS, FF, LF, CR, TAB have their short escapes, and every other
  character outside \<open>' '..'~'\<close> is written as a backslash, \<open>u\<close> and four hex digits.
\<close>

definition quote_char :: char where
  "quote_char = CHR 0x22"

definition backslash :: char where
  "backslash = CHR 0x5C"

definition json_escape_char :: "char \<Rightarrow> string" where
  "json_escape_char c =
     (if c = quote_char then [backslash, quote_char]
      else if c = backslash then [backslash, backslash]
      else if c = CHR 0x0A then [backslash, CHR ''n'']
      else if c = CHR 0x0D then [backslash, CHR ''r'']
      else if c = CHR 0x09 then [backslash, CHR ''t'']
      else if c = CHR 0x08 then [backslash, CHR ''b'']
      else if c = CHR 0x0C then [backslash, CHR ''f'']
      else if (of_char c :: int) < 32 \<or> 126 < (of_char c :: int)
        then [backslash, CHR ''u'', CHR ''0'', CHR ''0'',
              hex_digit (of_char c div 16), hex_digit (of_char c)]
      else [c])"

definition json_string :: "string \<Rightarrow> string" where
  "json_string s = [quote_char] @ concat (map json_escape_char s) @ [quote_char]"

text \<open>A value of the dictionary is a \<open>str\<close> (\<open>Some s\<close>) or \<open>None\<close>, written \<open>null\<close>.\<close>

definition json_value :: "string option \<Rightarrow> string" where
  "json_value v = (case v of None \<Rightarrow> ''null'' | Some s \<Rightarrow> json_string s)"

definition json_item :: "string \<times> string option \<Rightarrow> string" where
  "json_item kv = json_string (fst kv) @ '': '' @ json_value (snd kv)"

definition json_dumps :: "(string \<times> string option) list \<Rightarrow> string" where
  "json_dumps d = ''{'' @ join '', '' (map json_item (sort_key fst d)) @ ''}''"

section \<open>The audit trail (\<open>audit-trail/audit_system.py\<close>)\<close>

datatype AuditEventType =
    SYSTEM_INIT | KERNEL_OPERATION | ETHICAL_DECISION | AI_PROCESSING | MEMORY_ACCESS
  | SENTIENT_ACTIVITY | PROOF_VERIFICATION | SECURITY_EVENT | DATA_ACCESS
  | CONFIGURATION_CHANGE

fun event_type_value :: "AuditEventType \<Rightarrow> string" where
  "event_type_value SYSTEM_INIT = ''system_initialization''"
| "event_type_value KERNEL_OPERATION = ''kernel_operation''"
| "event_type_value ETHICAL_DECISION = ''ethical_decision''"
| "event_type_value AI_PROCESSING = ''ai_processing''"
| "event_type_value MEMORY_ACCESS = ''memory_access''"
| "event_type_value SENTIENT_ACTIVITY = ''sentient_activity''"
| "event_type_value PROOF_VERIFICATION = ''proof_verification''"
| "event_type_value SECURITY_EVENT = ''security_event''"
| "event_type_value DATA_ACCESS = ''data_access''"
| "event_type_value CONFIGURATION_CHANGE = ''configuration_change''"

text \<open>The caller's metadata is an arbitrary JSON-like value that the trail never inspects.\<close>

datatype json =
    JNull | JBool bool | JNum int | JStr string | JArr "json list"
  | JObj "(string \<times> json) list"

datatype py_error = IndexError | KeyError string | FileNotFoundError | JSONDecodeError string

text \<open>
  An entry of \<open>audit_log\<close>. \<open>chain_hash\<close> is \<open>None\<close> while the entry is built and a
  string once \<open>log_event\<close> has stamped it.
\<close>

record audit_entry =
  event_id :: string
  timestamp :: string
  event_type :: string
  description :: string
  actor :: string
  metadata :: "(string \<times> json) list"
  sensitivity :: string
  chain_hash :: "string option"

record chain_entry =
  ce_event_id :: string
  ce_timestamp :: string
  ce_hash :: "string option"

record AuditTrail =
  version :: string
  audit_log :: "audit_entry list"
  event_index :: "(string \<times> string list) list"
  chain_integrity :: "chain_entry list"
  public_audit_enabled :: bool

definition AuditTrail_init :: AuditTrail where
  "AuditTrail_init =
     \<lparr>version = ''1.0.0'', audit_log = [], event_index = [], chain_integrity = [],
      public_audit_enabled = True\<rparr>"

text \<open>
  \<open>_generate_event_id\<close>: the first 16 hex digits of the digest of the clock reading, a
  colon and the number of entries logged so far. The clock reading
  \<open>datetime.utcnow().isoformat()\<close> is an input of the model.
\<close>

definition generate_event_id :: "string \<Rightarrow> AuditTrail \<Rightarrow> string" where
  "generate_event_id now self =
     take 16 (sha256_hex (encode (now @ '':'' @ string_of_nat (length (audit_log self)))))"

text \<open>
  \<open>_compute_chain_hash\<close>: the digest of the sorted-key JSON text of the entry's
  \<open>event_id\<close>, \<open>timestamp\<close>, \<open>event_type\<close> and \<open>description\<close>, to which \<open>prev_hash\<close>
  is added when \<open>prev_index\<close> is given and not negative. \<open>audit_log[prev_index]\<close>
  raises \<open>IndexError\<close> beyond the end of the log.
\<close>

definition entry_data :: "audit_entry \<Rightarrow> (string \<times> string option) list" where
  "entry_data entry =
     [(''event_id'', Some (event_id entry)),
      (''timestamp'', Some (timestamp entry)),
      (''event_type'', Some (event_type entry)),
      (''description'', Some (description entry))]"

definition hash_entry_data :: "(string \<times> string option) list \<Rightarrow> string" where
  "hash_entry_data d = sha256_hex (encode (json_dumps d))"

definition compute_chain_hash ::
  "AuditTrail \<Rightarrow> audit_entry \<Rightarrow> int option \<Rightarrow> py_error + string" where
  "compute_chain_hash self entry prev_index =
     (case prev_index of
        None \<Rightarrow> Inr (hash_entry_data (entry_data entry))
      | Some p \<Rightarrow>
          if 0 \<le> p then
            (if nat p < length (audit_log self)
             then Inr (hash_entry_data
                        (entry_data entry @
                         [(''prev_hash'', chain_hash (audit_log self ! nat p))]))
             else Inl IndexError)
          else Inr (hash_entry_data (entry_data entry)))"

text \<open>\<open>_index_event\<close>: the event id is appended to the list kept under the type's value.\<close>

fun dict_set :: "string \<Rightarrow> 'v \<Rightarrow> (string \<times> 'v) list \<Rightarrow> (string \<times> 'v) list" where
  "dict_set k v [] = [(k, v)]"
| "dict_set k v ((k', v') # d) = (if k = k' then (k, v) # d else (k', v') # dict_set k v d)"

definition index_event :: "string \<Rightarrow> AuditEventType \<Rightarrow> AuditTrail \<Rightarrow> AuditTrail" where
  "index_event eid et self =
     (let type_key = event_type_value et;
          ids = (case map_of (event_index self) type_key of None \<Rightarrow> [] | Some l \<Rightarrow> l)
      in self\<lparr>event_index := dict_set type_key (ids @ [eid]) (event_index self)\<rparr>)"

definition update_integrity_chain :: "audit_entry \<Rightarrow> AuditTrail \<Rightarrow> AuditTrail" where
  "update_integrity_chain entry self =
     self\<lparr>chain_integrity := chain_integrity self @
       [\<lparr>ce_event_id = event_id entry, ce_timestamp = timestamp entry,
         ce_hash = chain_hash entry\<rparr>]\<rparr>"

text \<open>
  \<open>log_event\<close>. The two clock readings are inputs: \<open>now_id\<close> is the one taken by
  \<open>_generate_event_id\<close>, \<open>now\<close> the one stored in the entry. \<open>metadata\<close> is optional
  (\<open>metadata or {}\<close>); \<open>sensitivity\<close> is \<open>''public''\<close> when the caller leaves it out.
  The chain hash is computed by \<open>self._compute_chain_hash(audit_entry)\<close>, that is with
  \<open>prev_index\<close> at its default \<open>None\<close>. The result is the event id and the new state.
\<close>

definition log_event ::
  "string \<Rightarrow> string \<Rightarrow> AuditEventType \<Rightarrow> string \<Rightarrow> string \<Rightarrow> (string \<times> json) list option
     \<Rightarrow> string \<Rightarrow> AuditTrail \<Rightarrow> py_error + (string \<times> AuditTrail)" where
  "log_event now_id now et descr act meta sens self =
     (let eid = generate_event_id now_id self;
          audit_entry =
            \<lparr>event_id = eid, timestamp = now, event_type = event_type_value et,
             description = descr, actor = act,
             metadata = (case meta of None \<Rightarrow> [] | Some m \<Rightarrow> m),
             sensitivity = sens, chain_hash = None\<rparr>
      in case compute_chain_hash self audit_entry None of
           Inl err \<Rightarrow> Inl err
         | Inr h \<Rightarrow>
             (let audit_entry = audit_entry\<lparr>chain_hash := Some h\<rparr>;
                  self = self\<lparr>audit_log := audit_log self @ [audit_entry]\<rparr>;
                  self = index_event eid et self;
                  self = update_integrity_chain audit_entry self
              in Inr (eid, self)))"

text \<open>\<open>get_statistics\<close>. Python's \<open>xs[i]\<close> raises \<open>IndexError\<close> out of range.\<close>

definition py_index :: "'a list \<Rightarrow> int \<Rightarrow> py_error + 'a" where
  "py_index xs i =
     (if 0 \<le> i
      then (if nat i < length xs then Inr (xs ! nat i) else Inl IndexError)
      else (if nat (- i) \<le> length xs then Inr (xs ! (length xs - nat (- i)))
            else Inl IndexError))"

fun count_event_types :: "audit_entry list \<Rightarrow> (string \<times> nat) list \<Rightarrow> (string \<times> nat) list" where
  "count_event_types [] event_types = event_types"
| "count_event_types (event # rest) event_types =
     count_event_types rest
       (dict_set (event_type event)
          ((case map_of event_types (event_type event) of None \<Rightarrow> 0 | Some c \<Rightarrow> c) + 1)
          event_types)"

record statistics =
  total_events :: nat
  event_types :: "(string \<times> nat) list"
  public_events :: nat
  chain_length :: nat
  oldest_event :: "string option"
  newest_event :: "string option"

definition get_statistics :: "AuditTrail \<Rightarrow> py_error + statistics" where
  "get_statistics self =
     (case (if audit_log self \<noteq> [] then map_sum id Some (py_index (audit_log self) 0)
            else Inr None) of
        Inl err \<Rightarrow> Inl err
      | Inr oldest \<Rightarrow>
          (case (if audit_log self \<noteq> [] then map_sum id Some (py_index (audit_log self) (- 1))
                 else Inr None) of
             Inl err \<Rightarrow> Inl err
           | Inr newest \<Rightarrow>
               Inr \<lparr>total_events = length (audit_log self),
                    event_types = count_event_types (audit_log self) [],
                    public_events = length (filter (\<lambda>e. sensitivity e = ''public'') (audit_log self)),
                    chain_length = length (chain_integrity self),
                    oldest_event = map_option timestamp oldest,
                    newest_event = map_option timestamp newest\<rparr>))"

text \<open>
  \<open>query_events\<close>. \<open>filters\<close> is an optional dictionary from field names to the wanted
  values, \<open>start_time\<close> and \<open>end_time\<close> are optional strings. \<open>if filters:\<close>,
  \<open>if start_time:\<close> and \<open>if end_time:\<close> test truthiness: \<open>None\<close>, the empty dictionary and
  the empty string all skip the branch. Strings compare by code points, lexicographically.
\<close>

definition filter_field ::
  "(string \<times> string) list \<Rightarrow> string \<Rightarrow> (audit_entry \<Rightarrow> string) \<Rightarrow> audit_entry list
     \<Rightarrow> audit_entry list" where
  "filter_field filters key field results =
     (case map_of filters key of
        None \<Rightarrow> results
      | Some wanted \<Rightarrow> filter (\<lambda>e. field e = wanted) results)"

definition query_events ::
  "(string \<times> string) list option \<Rightarrow> string option \<Rightarrow> string option \<Rightarrow> AuditTrail
     \<Rightarrow> audit_entry list" where
  "query_events filters start_time end_time self =
     (let results = audit_log self;
          results =
            (case filters of
               None \<Rightarrow> results
             | Some f \<Rightarrow>
                 if f = [] then results
                 else filter_field f ''sensitivity'' sensitivity
                        (filter_field f ''actor'' actor
                           (filter_field f ''event_type'' event_type results)));
          results =
            (case start_time of
               None \<Rightarrow> results
             | Some s \<Rightarrow> if s = [] then results else filter (\<lambda>e. s \<le> timestamp e) results);
          results =
            (case end_time of
               None \<Rightarrow> results
             | Some s \<Rightarrow> if s = [] then results else filter (\<lambda>e. timestamp e \<le> s) results)
      in results)"

text \<open>
  \<open>verify_integrity\<close>. The loop \<open>for i, entry in enumerate(self.audit_log)\<close> recomputes
  each hash with \<open>prev_index = i - 1\<close> for \<open>i > 0\<close> and \<open>None\<close> for the first entry, and
  appends an issue for every mismatch. \<open>now\<close> is the clock reading.
\<close>

record issue_rec =
  issue_event_id :: string
  issue :: string

record verification =
  v_timestamp :: string
  v_total_events :: nat
  integrity_verified :: bool
  issues :: "issue_rec list"

fun verify_loop ::
  "AuditTrail \<Rightarrow> (nat \<times> audit_entry) list \<Rightarrow> verification \<Rightarrow> py_error + verification" where
  "verify_loop self [] v = Inr v"
| "verify_loop self ((i, entry) # rest) v =
     (case compute_chain_hash self entry (if 0 < i then Some (int i - 1) else None) of
        Inl err \<Rightarrow> Inl err
      | Inr expected_hash \<Rightarrow>
          if chain_hash entry \<noteq> Some expected_hash
          then verify_loop self rest
                 (v\<lparr>integrity_verified := False,
                    issues := issues v @
                      [\<lparr>issue_event_id = event_id entry, issue = ''Chain hash mismatch''\<rparr>]\<rparr>)
          else verify_loop self rest v)"

definition verify_integrity :: "string \<Rightarrow> AuditTrail \<Rightarrow> py_error + verification" where
  "verify_integrity now self =
     verify_loop self (enumerate 0 (audit_log self))
       \<lparr>v_timestamp = now, v_total_events = length (audit_log self),
        integrity_verified = True, issues = []\<rparr>"

text \<open>
  \<open>export_public_audit_data\<close>. An exported event is a dictionary, kept as the list of its
  items in insertion order. \<open>now\<close> is the export's clock reading, \<open>now_verify\<close> the one
  taken inside \<open>verify_integrity\<close>.
\<close>

definition public_event :: "audit_entry \<Rightarrow> (string \<times> string) list" where
  "public_event e =
     [(''event_id'', event_id e), (''timestamp'', timestamp e),
      (''event_type'', event_type e), (''description'', description e),
      (''actor'', actor e)]"

record public_export =
  ex_version :: string
  export_timestamp :: string
  total_public_events :: nat
  events :: "(string \<times> string) list list"
  integrity_status :: verification

definition export_public_audit_data ::
  "string \<Rightarrow> string \<Rightarrow> AuditTrail \<Rightarrow> py_error + public_export" where
  "export_public_audit_data now now_verify self =
     (let public_events =
            map public_event (filter (\<lambda>e. sensitivity e = ''public'') (audit_log self))
      in case verify_integrity now_verify self of
           Inl err \<Rightarrow> Inl err
         | Inr status \<Rightarrow>
             Inr \<lparr>ex_version = version self, export_timestamp = now,
                  total_public_events = length public_events, events = public_events,
                  integrity_status = status\<rparr>)"

text \<open>
  A log built by a sequence of \<open>log_event\<close> calls on a fresh trail: each call is given by
  its two clock readings and its arguments.
\<close>

record log_call =
  c_now_id :: string
  c_now :: string
  c_event_type :: AuditEventType
  c_description :: string
  c_actor :: string
  c_metadata :: "(string \<times> json) list option"
  c_sensitivity :: string

definition log_call_event :: "log_call \<Rightarrow> AuditTrail \<Rightarrow> py_error + (string \<times> AuditTrail)" where
  "log_call_event c self =
     log_event (c_now_id c) (c_now c) (c_event_type c) (c_description c) (c_actor c)
       (c_metadata c) (c_sensitivity c) self"

fun log_events :: "log_call list \<Rightarrow> AuditTrail \<Rightarrow> py_error + AuditTrail" where
  "log_events [] self = Inr self"
| "log_events (c # cs) self =
     (case log_call_event c self of
        Inl err \<Rightarrow> Inl err
      | Inr r \<Rightarrow> log_events cs (snd r))"

text \<open>
  What \<open>verify_integrity\<close> compares the stored hash of the entry at position \<open>i\<close> with,
  and the positions it reports; both are used to state its results.
\<close>

definition expected_hash :: "audit_entry list \<Rightarrow> nat \<Rightarrow> string" where
  "expected_hash log i =
     hash_entry_data
       (entry_data (log ! i) @
        (if 0 < i then [(''prev_hash'', chain_hash (log ! (i - 1)))] else []))"

definition link_mismatch :: "audit_entry list \<Rightarrow> nat \<Rightarrow> bool" where
  "link_mismatch log i = (chain_hash (log ! i) \<noteq> Some (expected_hash log i))"

definition mismatch_issue :: "audit_entry \<Rightarrow> issue_rec" where
  "mismatch_issue e = \<lparr>issue_event_id = event_id e, issue = ''Chain hash mismatch''\<rparr>"

section \<open>The standalone verifier (\<open>audit-chain/verify-chain.py\<close>)\<close>

text \<open>
  The file read by \<open>json.load\<close> is a dictionary with the key \<open>audit_log\<close>, whose value
  holds \<open>chain_id\<close>, \<open>genesis_timestamp\<close>, \<open>chain_status\<close> and \<open>entries\<close>. Every key
  may be absent (\<open>None\<close>); looking an absent key up raises \<open>KeyError\<close>. The values
  present have the types of the export format: strings, and booleans in
  \<open>chain_status\<close>. Parsing is not modelled: a path holds no file, a text that
  \<open>json.load\<close> rejects with a message, or a parsed document.
\<close>

record export_entry =
  x_entry_id :: "string option"
  x_timestamp :: "string option"
  x_event_type :: "string option"
  x_hash :: "string option"
  x_previous_hash :: "string option"

record chain_status_doc =
  active :: "bool option"
  verified :: "bool option"
  public :: "bool option"

record audit_log_doc =
  chain_id :: "string option"
  genesis_timestamp :: "string option"
  chain_status :: "chain_status_doc option"
  entries :: "export_entry list option"

record export_file =
  x_audit_log :: "audit_log_doc option"

datatype file_state = NoFile | BadJson string | Json export_file

text \<open>
  Standard output is the list of the texts given to \<open>print\<close>, in order; each is followed
  by a newline on the terminal. The symbols outside ASCII are given by their UTF-8 bytes.
\<close>

definition cross_mark :: string where
  "cross_mark = [CHR 0xE2, CHR 0x9D, CHR 0x8C]"

definition check_mark :: string where
  "check_mark = [CHR 0xE2, CHR 0x9C, CHR 0x85]"

definition link_mark :: string where
  "link_mark = [CHR 0xF0, CHR 0x9F, CHR 0x94, CHR 0x97]"

definition seal_mark :: string where
  "seal_mark = [CHR 0xE2, CHR 0x8A, CHR 0x98, CHR 0xE2, CHR 0x88, CHR 0x9E,
                CHR 0xE2, CHR 0xA7, CHR 0x88, CHR 0xE2, CHR 0x88, CHR 0x9E,
                CHR 0xE2, CHR 0x8A, CHR 0x98]"

definition newline :: string where
  "newline = [CHR 0x0A]"

definition py_bool :: "bool \<Rightarrow> string" where
  "py_bool b = (if b then ''True'' else ''False'')"

definition load_audit_log ::
  "string \<Rightarrow> (string \<Rightarrow> file_state) \<Rightarrow> string list \<times> (py_error + audit_log_doc)" where
  "load_audit_log path fs =
     (case fs path of
        NoFile \<Rightarrow>
          ([cross_mark @ '' Error: Audit log file not found at '' @ path],
           Inl FileNotFoundError)
      | BadJson msg \<Rightarrow>
          ([cross_mark @ '' Error: Invalid JSON in audit log: '' @ msg],
           Inl (JSONDecodeError msg))
      | Json data \<Rightarrow>
          (case x_audit_log data of
             None \<Rightarrow>
               ([cross_mark @ '' Error: Invalid audit log format - missing '' @
                 [CHR 0x27] @ ''audit_log'' @ [CHR 0x27] @ '' key''],
                Inl (KeyError ''audit_log''))
           | Some doc \<Rightarrow> ([], Inr doc)))"

text \<open>
  The loop of \<open>verify_chain\<close> over \<open>enumerate(entries)\<close>, with the verdict so far and the
  output so far. An f-string is evaluated before it is printed, so a missing key stops the
  run before the line that needs it.
\<close>

fun verify_entries ::
  "export_entry list \<Rightarrow> (nat \<times> export_entry) list \<Rightarrow> bool \<Rightarrow> string list
     \<Rightarrow> string list \<times> (py_error + bool)" where
  "verify_entries all_entries [] ok out = (out, Inr ok)"
| "verify_entries all_entries ((i, entry) # rest) ok out =
     (case x_entry_id entry of
        None \<Rightarrow> (out, Inl (KeyError ''entry_id''))
      | Some entry_id \<Rightarrow>
     (case x_hash entry of
        None \<Rightarrow> (out, Inl (KeyError ''hash''))
      | Some current_hash \<Rightarrow>
     (case x_previous_hash entry of
        None \<Rightarrow> (out, Inl (KeyError ''previous_hash''))
      | Some previous_hash \<Rightarrow>
     (case x_timestamp entry of
        None \<Rightarrow>
          (out @ [''Entry '' @ string_of_nat (i + 1) @ '': '' @ entry_id],
           Inl (KeyError ''timestamp''))
      | Some ts \<Rightarrow>
     (case x_event_type entry of
        None \<Rightarrow>
          (out @ [''Entry '' @ string_of_nat (i + 1) @ '': '' @ entry_id,
                  ''  Timestamp: '' @ ts],
           Inl (KeyError ''event_type''))
      | Some et \<Rightarrow>
          (let out = out @ [''Entry '' @ string_of_nat (i + 1) @ '': '' @ entry_id,
                            ''  Timestamp: '' @ ts,
                            ''  Event: '' @ et,
                            ''  Hash: '' @ current_hash]
           in if 0 < i then
                (case py_index all_entries (int i - 1) of
                   Inl err \<Rightarrow> (out, Inl err)
                 | Inr prev \<Rightarrow>
                     (case x_hash prev of
                        None \<Rightarrow> (out, Inl (KeyError ''hash''))
                      | Some expected_previous \<Rightarrow>
                          if previous_hash \<noteq> expected_previous
                          then verify_entries all_entries rest False
                                 (out @ [''  '' @ cross_mark @
                                         '' VERIFICATION FAILED: Previous hash mismatch'', []])
                          else verify_entries all_entries rest ok
                                 (out @ [''  '' @ check_mark @ '' Chain link verified'', []])))
              else verify_entries all_entries rest ok
                     (out @ [''  '' @ check_mark @ '' Genesis block'', []])))))))"

definition print_status ::
  "audit_log_doc \<Rightarrow> bool \<Rightarrow> string list \<Rightarrow> string list \<times> (py_error + bool)" where
  "print_status doc ok out =
     (case chain_status doc of
        None \<Rightarrow> (out, Inl (KeyError ''chain_status''))
      | Some status \<Rightarrow>
     (case active status of
        None \<Rightarrow> (out @ [newline @ ''Chain Status:''], Inl (KeyError ''active''))
      | Some a \<Rightarrow>
     (case verified status of
        None \<Rightarrow>
          (out @ [newline @ ''Chain Status:'', ''  Active: '' @ py_bool a],
           Inl (KeyError ''verified''))
      | Some v \<Rightarrow>
     (case public status of
        None \<Rightarrow>
          (out @ [newline @ ''Chain Status:'', ''  Active: '' @ py_bool a,
                  ''  Verified: '' @ py_bool v],
           Inl (KeyError ''public''))
      | Some p \<Rightarrow>
          (out @ [newline @ ''Chain Status:'', ''  Active: '' @ py_bool a,
                  ''  Verified: '' @ py_bool v, ''  Public: '' @ py_bool p] @
           (if ok
            then [newline @ check_mark @ '' AUDIT CHAIN VERIFICATION SUCCESSFUL'',
                  seal_mark @ '' Chain integrity confirmed'']
            else [newline @ cross_mark @ '' AUDIT CHAIN VERIFICATION FAILED'']),
           Inr ok)))))"

definition verify_chain ::
  "audit_log_doc \<Rightarrow> string list \<Rightarrow> string list \<times> (py_error + bool)" where
  "verify_chain doc out =
     (case entries doc of
        None \<Rightarrow> (out, Inl (KeyError ''entries''))
      | Some es \<Rightarrow>
     (case chain_id doc of
        None \<Rightarrow>
          (out @ [link_mark @ '' Verifying OR1ON Audit Chain...''], Inl (KeyError ''chain_id''))
      | Some cid \<Rightarrow>
     (case genesis_timestamp doc of
        None \<Rightarrow>
          (out @ [link_mark @ '' Verifying OR1ON Audit Chain...'', ''Chain ID: '' @ cid],
           Inl (KeyError ''genesis_timestamp''))
      | Some g \<Rightarrow>
          (case verify_entries es (enumerate 0 es) True
                  (out @ [link_mark @ '' Verifying OR1ON Audit Chain...'',
                          ''Chain ID: '' @ cid,
                          ''Genesis: '' @ g,
                          ''Total Entries: '' @ string_of_nat (length es) @ newline]) of
             (out, Inl err) \<Rightarrow> (out, Inl err)
           | (out, Inr ok) \<Rightarrow> print_status doc ok out))))"

text \<open>
  The script's \<open>__main__\<close> block: the verifier is built on the fixed path
  \<open>audit-log.json\<close> and \<open>verify_chain\<close> is called; its result is dropped. The process
  ends with exit status 0, or with 1 after an exception that nothing catches. \<open>argv\<close> are
  the command-line arguments and \<open>fs\<close> the files by path.
\<close>

definition main :: "string list \<Rightarrow> (string \<Rightarrow> file_state) \<Rightarrow> string list \<times> nat" where
  "main argv fs =
     (case load_audit_log ''audit-log.json'' fs of
        (out, Inl err) \<Rightarrow> (out, 1)
      | (out, Inr doc) \<Rightarrow>
          (case verify_chain doc out of
             (out, Inl err) \<Rightarrow> (out, 1)
           | (out, Inr ok) \<Rightarrow> (out, 0)))"

text \<open>
  Notions used to state what the verifier does: an entry or a document in which no key
  that the verifier reads is absent, the linkage of the stored hashes, and the verdict
  line printed for the entry at position \<open>i\<close>.
\<close>

definition complete_entry :: "export_entry \<Rightarrow> bool" where
  "complete_entry e =
     (x_entry_id e \<noteq> None \<and> x_timestamp e \<noteq> None \<and> x_event_type e \<noteq> None \<and>
      x_hash e \<noteq> None \<and> x_previous_hash e \<noteq> None)"

definition complete_status :: "chain_status_doc \<Rightarrow> bool" where
  "complete_status st = (active st \<noteq> None \<and> verified st \<noteq> None \<and> public st \<noteq> None)"

definition complete_doc :: "audit_log_doc \<Rightarrow> bool" where
  "complete_doc doc =
     (chain_id doc \<noteq> None \<and> genesis_timestamp doc \<noteq> None \<and>
      (case chain_status doc of None \<Rightarrow> False | Some st \<Rightarrow> complete_status st) \<and>
      (case entries doc of None \<Rightarrow> False | Some es \<Rightarrow> list_all complete_entry es))"

definition links_ok :: "export_entry list \<Rightarrow> bool" where
  "links_ok es =
     list_all (\<lambda>i. x_previous_hash (es ! i) = x_hash (es ! (i - 1))) [1..<length es]"

definition link_line :: "export_entry list \<Rightarrow> nat \<Rightarrow> string" where
  "link_line es i =
     (if i = 0 then ''  '' @ check_mark @ '' Genesis block''
      else if x_previous_hash (es ! i) = x_hash (es ! (i - 1))
        then ''  '' @ check_mark @ '' Chain link verified''
        else ''  '' @ cross_mark @ '' VERIFICATION FAILED: Previous hash mismatch'')"

section \<open>Two calls used as a running example\<close>

text \<open>
  The first call is the one the demonstration makes after start-up; the second logs an
  event that is not public. The entries and trails below are what the calls produce, with
  the digests written out.
\<close>

definition call_1 :: log_call where
  "call_1 =
     \<lparr>c_now_id = ''2024-01-01T12:00:00.000100'', c_now = ''2024-01-01T12:00:00.000105'',
      c_event_type = SYSTEM_INIT, c_description = ''OR1ON System fully initialized'',
      c_actor = ''System'', c_metadata = Some [(''version'', JStr ''Genesis10000+.v1.0.0'')],
      c_sensitivity = ''public''\<rparr>"

definition call_2 :: log_call where
  "call_2 =
     \<lparr>c_now_id = ''2024-01-01T12:00:01.250300'', c_now = ''2024-01-01T12:00:01.250310'',
      c_event_type = SECURITY_EVENT, c_description = ''key rotated'',
      c_actor = ''Kernel'', c_metadata = None, c_sensitivity = ''internal''\<rparr>"

definition entry_1 :: audit_entry where
  "entry_1 =
     \<lparr>event_id = ''73e30ab01a24c300'', timestamp = ''2024-01-01T12:00:00.000105'',
      event_type = ''system_initialization'', description = ''OR1ON System fully initialized'',
      actor = ''System'', metadata = [(''version'', JStr ''Genesis10000+.v1.0.0'')],
      sensitivity = ''public'',
      chain_hash = Some ''beb2678d6809aebfebd8efcd825ec059e68e2281149c1f19cff053fa77526232''\<rparr>"

definition entry_2 :: audit_entry where
  "entry_2 =
     \<lparr>event_id = ''5506a80ef969fe26'', timestamp = ''2024-01-01T12:00:01.250310'',
      event_type = ''security_event'', description = ''key rotated'',
      actor = ''Kernel'', metadata = [], sensitivity = ''internal'',
      chain_hash = Some ''123cf706c4712ba28fbeab05ac737479a81ddce30637829dd1a3a0ec98561ab2''\<rparr>"

definition trail_1 :: AuditTrail where
  "trail_1 =
     \<lparr>version = ''1.0.0'', audit_log = [entry_1],
      event_index = [(''system_initialization'', [''73e30ab01a24c300''])],
      chain_integrity =
        [\<lparr>ce_event_id = ''73e30ab01a24c300'', ce_timestamp = ''2024-01-01T12:00:00.000105'',
          ce_hash = Some ''beb2678d6809aebfebd8efcd825ec059e68e2281149c1f19cff053fa77526232''\<rparr>],
      public_audit_enabled = True\<rparr>"

definition trail_2 :: AuditTrail where
  "trail_2 =
     \<lparr>version = ''1.0.0'', audit_log = [entry_1, entry_2],
      event_index = [(''system_initialization'', [''73e30ab01a24c300'']),
                     (''security_event'', [''5506a80ef969fe26''])],
      chain_integrity =
        [\<lparr>ce_event_id = ''73e30ab01a24c300'', ce_timestamp = ''2024-01-01T12:00:00.000105'',
          ce_hash = Some ''beb2678d6809aebfebd8efcd825ec059e68e2281149c1f19cff053fa77526232''\<rparr>,
         \<lparr>ce_event_id = ''5506a80ef969fe26'', ce_timestamp = ''2024-01-01T12:00:01.250310'',
          ce_hash = Some ''123cf706c4712ba28fbeab05ac737479a81ddce30637829dd1a3a0ec98561ab2''\<rparr>],
      public_audit_enabled = True\<rparr>"

text \<open>
  An export of the two-call log in the verifier's format, used as an example: the
  entries carry the hashes of the log, the first with an empty \<open>previous_hash\<close>.
\<close>

definition export_entry_1 :: export_entry where
  "export_entry_1 =
     \<lparr>x_entry_id = Some ''73e30ab01a24c300'',
      x_timestamp = Some ''2024-01-01T12:00:00.000105'',
      x_event_type = Some ''system_initialization'',
      x_hash = Some ''beb2678d6809aebfebd8efcd825ec059e68e2281149c1f19cff053fa77526232'',
      x_previous_hash = Some []\<rparr>"

definition export_entry_2 :: export_entry where
  "export_entry_2 =
     \<lparr>x_entry_id = Some ''5506a80ef969fe26'',
      x_timestamp = Some ''2024-01-01T12:00:01.250310'',
      x_event_type = Some ''security_event'',
      x_hash = Some ''123cf706c4712ba28fbeab05ac737479a81ddce30637829dd1a3a0ec98561ab2'',
      x_previous_hash =
        Some ''beb2678d6809aebfebd8efcd825ec059e68e2281149c1f19cff053fa77526232''\<rparr>"

definition export_doc :: "export_entry list \<Rightarrow> audit_log_doc" where
  "export_doc es =
     \<lparr>chain_id = Some ''OR1ON-AUDIT'',
      genesis_timestamp = Some ''2024-01-01T12:00:00.000105'',
      chain_status = Some \<lparr>active = Some True, verified = Some True, public = Some True\<rparr>,
      entries = Some es\<rparr>"

definition export_at :: "string \<Rightarrow> audit_log_doc \<Rightarrow> string \<Rightarrow> file_state" where
  "export_at path doc p = (if p = path then Json \<lparr>x_audit_log = Some doc\<rparr> else NoFile)"

section \<open>Evaluating the digests\<close>

text \<open>Equations that let the simplifier run SHA-256 on numerals.\<close>

lemma sha_extend_numeral:
  "sha_extend (numeral n) rw = sha_extend (pred_numeral n) (next_w rw # rw)"
  by (simp only: numeral_eq_Suc [of n] sha_extend.simps)

lemma replicate_numeral:
  "replicate (numeral n) x = x # replicate (pred_numeral n) x"
  by (simp only: numeral_eq_Suc [of n] replicate.simps)

lemma add32_mask: "add32 a b = (a + b) AND 4294967295"
proof -
  have "(a + b) mod 2 ^ 32 = take_bit 32 (a + b)"
    by (simp only: take_bit_eq_mod)
  also have "\<dots> = (a + b) AND mask 32"
    by (simp only: take_bit_eq_mask)
  finally show ?thesis
    by (simp add: add32_def mask_eq_exp_minus_1)
qed

lemma rotr_bits: "rotr n x = drop_bit n x + push_bit (32 - n) (take_bit n x)"
  by (simp only: rotr_def drop_bit_eq_div take_bit_eq_mod push_bit_eq_mult)

lemma shr_bits: "shr n x = drop_bit n x"
  by (simp only: shr_def drop_bit_eq_div)

lemmas sha_eval =
  add32_mask rotr_bits shr_bits not32_def ch_def maj_def bsig0_def bsig1_def ssig0_def ssig1_def
  next_w_def schedule_def sha_t1_def sha_t2_def sha_shift_def sha_round_def compress_def
  K256_def H256_def sha_pad_def be_bytes8_def hex_digit_def hex_word_def sha256_hex_def
  sha_extend_numeral replicate_numeral

lemmas text_eval =
  encode_def utf8_char_def json_string_def json_escape_char_def quote_char_def backslash_def

lemma digest_id_1:
  "sha256_hex (encode ''2024-01-01T12:00:00.000100:0'') =
     ''73e30ab01a24c300acd33b71c650c1a5e1afa30b8513ddb0cb91e29367f09103''"
  by (simp add: text_eval sha_eval)

lemma digest_id_2:
  "sha256_hex (encode ''2024-01-01T12:00:01.250300:1'') =
     ''5506a80ef969fe26d22a6102f490178eb1bf58a6b12e304282577d20441ff84a''"
  by (simp add: text_eval sha_eval)

lemma digest_entry_1:
  \<open>sha256_hex (encode ''{"description": "OR1ON System fully initialized", "event_id": "73e30ab01a24c300", "event_type": "system_initialization", "timestamp": "2024-01-01T12:00:00.000105"}'') =
     ''beb2678d6809aebfebd8efcd825ec059e68e2281149c1f19cff053fa77526232''\<close>
  by (simp add: text_eval sha_eval)

lemma digest_entry_2:
  \<open>sha256_hex (encode ''{"description": "key rotated", "event_id": "5506a80ef969fe26", "event_type": "security_event", "timestamp": "2024-01-01T12:00:01.250310"}'') =
     ''123cf706c4712ba28fbeab05ac737479a81ddce30637829dd1a3a0ec98561ab2''\<close>
  by (simp add: text_eval sha_eval)

lemma digest_entry_2_prev:
  \<open>sha256_hex (encode ''{"description": "key rotated", "event_id": "5506a80ef969fe26", "event_type": "security_event", "prev_hash": "beb2678d6809aebfebd8efcd825ec059e68e2281149c1f19cff053fa77526232", "timestamp": "2024-01-01T12:00:01.250310"}'') =
     ''4f2e4ba5b7779eb43d5c96d55e8fde947a1206f54c97c3eb25c4696f76be6f98''\<close>
  by (simp add: text_eval sha_eval)

lemma digest_entry_1_tampered:
  \<open>sha256_hex (encode ''{"description": "OR1ON System fully initialised", "event_id": "73e30ab01a24c300", "event_type": "system_initialization", "timestamp": "2024-01-01T12:00:00.000105"}'') =
     ''f876779347a9d0020756db97815d87b7053f8cfea2a34471a030d957fbfddf35''\<close>
  by (simp add: text_eval sha_eval)

section \<open>The running example, evaluated\<close>

lemma sort_entry_keys:
  "sort_key fst [(''event_id'', a), (''timestamp'', b), (''event_type'', c), (''description'', d)] =
     [(''description'', d), (''event_id'', a), (''event_type'', c), (''timestamp'', b)]"
  by simp

lemma sort_entry_keys_prev:
  "sort_key fst [(''event_id'', a), (''timestamp'', b), (''event_type'', c), (''description'', d),
                 (''prev_hash'', p)] =
     [(''description'', d), (''event_id'', a), (''event_type'', c), (''prev_hash'', p),
      (''timestamp'', b)]"
  by simp

lemma json_dumps_entry_data:
  \<open>json_dumps (entry_data e) =
     ''{"description": '' @ json_string (description e) @
     '', "event_id": '' @ json_string (event_id e) @
     '', "event_type": '' @ json_string (event_type e) @
     '', "timestamp": '' @ json_string (timestamp e) @ ''}''\<close>
  by (simp add: json_dumps_def entry_data_def sort_entry_keys json_item_def json_value_def
      json_string_def [of "''description''"] json_string_def [of "''event_id''"]
      json_string_def [of "''event_type''"] json_string_def [of "''timestamp''"]
      json_escape_char_def quote_char_def backslash_def)

lemma json_dumps_entry_data_prev:
  \<open>json_dumps (entry_data e @ [(''prev_hash'', p)]) =
     ''{"description": '' @ json_string (description e) @
     '', "event_id": '' @ json_string (event_id e) @
     '', "event_type": '' @ json_string (event_type e) @
     '', "prev_hash": '' @ json_value p @
     '', "timestamp": '' @ json_string (timestamp e) @ ''}''\<close>
  by (simp add: json_dumps_def entry_data_def sort_entry_keys_prev json_item_def json_value_def
      json_string_def [of "''description''"] json_string_def [of "''event_id''"]
      json_string_def [of "''event_type''"] json_string_def [of "''timestamp''"]
      json_string_def [of "''prev_hash''"]
      json_escape_char_def quote_char_def backslash_def)

lemma string_of_nat_digit: "n < 10 \<Longrightarrow> string_of_nat n = [digit_char n]"
  by (simp add: string_of_nat.simps)

lemma generate_event_id_1:
  "generate_event_id ''2024-01-01T12:00:00.000100'' AuditTrail_init = ''73e30ab01a24c300''"
  using digest_id_1
  by (simp add: generate_event_id_def AuditTrail_init_def string_of_nat_digit digit_char_def)

lemma hash_entry_1:
  "hash_entry_data (entry_data entry_1) =
     ''beb2678d6809aebfebd8efcd825ec059e68e2281149c1f19cff053fa77526232''"
  using digest_entry_1
  by (simp add: hash_entry_data_def json_dumps_entry_data entry_1_def json_string_def
      json_escape_char_def quote_char_def backslash_def)

lemma hash_entry_2:
  "hash_entry_data (entry_data entry_2) =
     ''123cf706c4712ba28fbeab05ac737479a81ddce30637829dd1a3a0ec98561ab2''"
  using digest_entry_2
  by (simp add: hash_entry_data_def json_dumps_entry_data entry_2_def json_string_def
      json_escape_char_def quote_char_def backslash_def)

lemma hash_entry_2_prev:
  "hash_entry_data (entry_data entry_2 @ [(''prev_hash'', chain_hash entry_1)]) =
     ''4f2e4ba5b7779eb43d5c96d55e8fde947a1206f54c97c3eb25c4696f76be6f98''"
  using digest_entry_2_prev
  by (simp add: hash_entry_data_def json_dumps_entry_data_prev entry_2_def entry_1_def
      json_value_def json_string_def json_escape_char_def quote_char_def backslash_def)

lemma compute_chain_hash_None:
  "compute_chain_hash self entry None = Inr (hash_entry_data (entry_data entry))"
  by (simp add: compute_chain_hash_def)

lemma log_call_event_1:
  "log_call_event call_1 AuditTrail_init = Inr (''73e30ab01a24c300'', trail_1)"
proof -
  have e: "\<lparr>event_id = ''73e30ab01a24c300'', timestamp = ''2024-01-01T12:00:00.000105'',
      event_type = ''system_initialization'', description = ''OR1ON System fully initialized'',
      actor = ''System'', metadata = [(''version'', JStr ''Genesis10000+.v1.0.0'')],
      sensitivity = ''public'', chain_hash = None\<rparr> = entry_1\<lparr>chain_hash := None\<rparr>"
    by (simp add: entry_1_def)
  have d: "entry_data (entry_1\<lparr>chain_hash := None\<rparr>) = entry_data entry_1"
    by (simp add: entry_data_def)
  show ?thesis
    by (simp add: log_call_event_def call_1_def log_event_def generate_event_id_1
        compute_chain_hash_None e d hash_entry_1 Let_def index_event_def
        update_integrity_chain_def)
       (simp add: entry_1_def trail_1_def AuditTrail_init_def)
qed

lemma log_events_call_1: "log_events [call_1] AuditTrail_init = Inr trail_1"
  by (simp add: log_call_event_1)

lemma generate_event_id_2:
  "generate_event_id ''2024-01-01T12:00:01.250300'' trail_1 = ''5506a80ef969fe26''"
  using digest_id_2
  by (simp add: generate_event_id_def trail_1_def string_of_nat_digit digit_char_def)

lemma log_call_event_2:
  "log_call_event call_2 trail_1 = Inr (''5506a80ef969fe26'', trail_2)"
proof -
  have e: "\<lparr>event_id = ''5506a80ef969fe26'', timestamp = ''2024-01-01T12:00:01.250310'',
      event_type = ''security_event'', description = ''key rotated'',
      actor = ''Kernel'', metadata = [], sensitivity = ''internal'',
      chain_hash = None\<rparr> = entry_2\<lparr>chain_hash := None\<rparr>"
    by (simp add: entry_2_def)
  have d: "entry_data (entry_2\<lparr>chain_hash := None\<rparr>) = entry_data entry_2"
    by (simp add: entry_data_def)
  show ?thesis
    by (simp add: log_call_event_def call_2_def log_event_def generate_event_id_2
        compute_chain_hash_None e d hash_entry_2 Let_def index_event_def
        update_integrity_chain_def)
       (simp add: entry_2_def trail_1_def trail_2_def)
qed

lemma log_events_call_2: "log_events [call_1, call_2] AuditTrail_init = Inr trail_2"
  by (simp add: log_call_event_1 log_call_event_2)

lemma link_mismatch_trail_2:
  "\<not> link_mismatch (audit_log trail_2) 0" "link_mismatch (audit_log trail_2) 1"
  using hash_entry_1 hash_entry_2_prev
  by (simp_all add: link_mismatch_def expected_hash_def trail_2_def)
     (simp_all add: entry_1_def entry_2_def)

section \<open>What \<open>verify_integrity\<close> returns\<close>


lemma compute_chain_hash_verify:
  assumes "i < length (audit_log self)"
  shows "compute_chain_hash self (audit_log self ! i) (if 0 < i then Some (int i - 1) else None) =
           Inr (expected_hash (audit_log self) i)"
proof (cases "0 < i")
  case True
  then have "nat (int i - 1) = i - 1" by simp
  moreover have "i - 1 < length (audit_log self)" using assms by simp
  moreover have "0 \<le> int i - 1" using True by simp
  ultimately show ?thesis using True
    by (simp add: compute_chain_hash_def expected_hash_def)
next
  case False
  then show ?thesis by (simp add: compute_chain_hash_def expected_hash_def)
qed

lemma verify_loop_collects:
  assumes "\<forall>p \<in> set es. fst p < length (audit_log self) \<and> snd p = audit_log self ! fst p"
  shows "verify_loop self es v =
           Inr (v\<lparr>integrity_verified :=
                    integrity_verified v \<and> (\<forall>p \<in> set es. \<not> link_mismatch (audit_log self) (fst p)),
                  issues := issues v @
                    map (\<lambda>p. mismatch_issue (snd p))
                      (filter (\<lambda>p. link_mismatch (audit_log self) (fst p)) es)\<rparr>)"
  using assms
proof (induction es arbitrary: v)
  case Nil
  then show ?case by simp
next
  case (Cons p es)
  obtain i e where p: "p = (i, e)" by (cases p)
  from Cons.prems p have i: "i < length (audit_log self)" and e: "e = audit_log self ! i"
    by auto
  from Cons.prems have rest:
    "\<forall>p \<in> set es. fst p < length (audit_log self) \<and> snd p = audit_log self ! fst p"
    by simp
  show ?case
    using compute_chain_hash_verify [OF i] Cons.IH [OF rest] p e
    by (auto simp add: link_mismatch_def mismatch_issue_def)
qed

lemma enumerate_positions:
  "\<forall>p \<in> set (enumerate 0 xs). fst p < length xs \<and> snd p = xs ! fst p"
proof
  fix p assume p: "p \<in> set (enumerate 0 xs)"
  obtain i e where ie: "p = (i, e)" by (cases p)
  from p ie have "i < length xs \<and> e = xs ! i"
    by (auto simp add: in_set_enumerate_eq)
  then show "fst p < length xs \<and> snd p = xs ! fst p"
    unfolding ie fst_conv snd_conv .
qed

lemma enumerate_as_map: "enumerate 0 xs = map (\<lambda>i. (i, xs ! i)) [0..<length xs]"
  by (rule nth_equalityI) (simp_all add: nth_enumerate_eq)

lemma enumerate_map_filter:
  "map (\<lambda>p. f (snd p)) (filter (\<lambda>p. P (fst p)) (enumerate 0 xs)) =
   map (\<lambda>i. f (xs ! i)) (filter P [0..<length xs])"
  unfolding enumerate_as_map by (simp add: filter_map comp_def)

lemma enumerate_all_positions:
  "(\<forall>p \<in> set (enumerate 0 xs). Q (fst p)) = (\<forall>i < length xs. Q i)"
  unfolding enumerate_as_map by auto

lemma verify_integrity_result:
  "verify_integrity now self =
     Inr \<lparr>v_timestamp = now, v_total_events = length (audit_log self),
          integrity_verified = (\<forall>i < length (audit_log self). \<not> link_mismatch (audit_log self) i),
          issues = map (\<lambda>i. mismatch_issue (audit_log self ! i))
                     (filter (link_mismatch (audit_log self)) [0..<length (audit_log self)])\<rparr>"
  unfolding verify_integrity_def
  by (simp add: verify_loop_collects [OF enumerate_positions] enumerate_map_filter
        enumerate_all_positions [of "audit_log self" "\<lambda>i. \<not> link_mismatch (audit_log self) i"])

section \<open>The hash chain as \<open>log_event\<close> writes it\<close>

text \<open>
  C1: a log built by \<open>log_event\<close> and left alone should verify. After the two calls of
  the running example \<open>verify_integrity\<close> reports \<open>integrity_verified = False\<close> and
  lists the second entry: \<open>log_event\<close> stamped it with a digest that has no
  \<open>prev_hash\<close>, and \<open>verify_integrity\<close> recomputes the digest with the first entry's
  hash as \<open>prev_hash\<close>.
\<close>

theorem verify_integrity_two_events:
  "log_events [call_1, call_2] AuditTrail_init = Inr trail_2 \<and>
   verify_integrity ''2024-01-01T12:00:02.000000'' trail_2 =
     Inr \<lparr>v_timestamp = ''2024-01-01T12:00:02.000000'', v_total_events = 2,
          integrity_verified = False,
          issues = [\<lparr>issue_event_id = ''5506a80ef969fe26'', issue = ''Chain hash mismatch''\<rparr>]\<rparr>"
proof -
  have len: "length (audit_log trail_2) = 2" by (simp add: trail_2_def)
  have idx: "[0..<2] = [0, Suc 0]" by (simp add: upt_rec)
  have fl: "filter (link_mismatch (audit_log trail_2)) [0..<2] = [1]"
    using link_mismatch_trail_2 by (simp add: idx)
  have ex: "\<not> (\<forall>i<2. \<not> link_mismatch (audit_log trail_2) i)"
    using link_mismatch_trail_2(2) by (metis One_nat_def one_less_numeral_iff semiring_norm(76))
  have iss: "mismatch_issue (audit_log trail_2 ! Suc 0) =
      \<lparr>issue_event_id = ''5506a80ef969fe26'', issue = ''Chain hash mismatch''\<rparr>"
    by (simp add: mismatch_issue_def trail_2_def entry_2_def)
  have "verify_integrity ''2024-01-01T12:00:02.000000'' trail_2 =
     Inr \<lparr>v_timestamp = ''2024-01-01T12:00:02.000000'', v_total_events = 2,
          integrity_verified = False,
          issues = [\<lparr>issue_event_id = ''5506a80ef969fe26'', issue = ''Chain hash mismatch''\<rparr>]\<rparr>"
    by (simp add: verify_integrity_result len fl ex iss)
  with log_events_call_2 show ?thesis by (rule conjI)
qed

text \<open>
  C2: the stored hash of an entry after the first should have the previous entry's hash
  among the digest's inputs. The second entry of the running example carries the digest of
  its own four fields alone, which differs from the digest that includes the first
  entry's hash.
\<close>

theorem log_event_omits_previous_hash:
  "log_events [call_1, call_2] AuditTrail_init = Inr trail_2 \<and>
   audit_log trail_2 = [entry_1, entry_2] \<and>
   chain_hash entry_2 = Some (hash_entry_data (entry_data entry_2)) \<and>
   chain_hash entry_2 \<noteq>
     Some (hash_entry_data (entry_data entry_2 @ [(''prev_hash'', chain_hash entry_1)]))"
proof -
  have "audit_log trail_2 = [entry_1, entry_2]"
    by (simp add: trail_2_def)
  moreover have "chain_hash entry_2 = Some (hash_entry_data (entry_data entry_2))"
    by (simp add: hash_entry_2) (simp add: entry_2_def)
  moreover have "chain_hash entry_2 \<noteq>
     Some (hash_entry_data (entry_data entry_2 @ [(''prev_hash'', chain_hash entry_1)]))"
    by (simp add: hash_entry_2_prev) (simp add: entry_2_def)
  ultimately show ?thesis using log_events_call_2 by blast
qed

section \<open>Tampering and \<open>verify_integrity\<close>\<close>

lemma verify_integrity_same_hashed_fields:
  assumes len: "length log' = length (audit_log self)"
    and same: "\<forall>j < length log'. entry_data (log' ! j) = entry_data (audit_log self ! j) \<and>
                 chain_hash (log' ! j) = chain_hash (audit_log self ! j) \<and>
                 event_id (log' ! j) = event_id (audit_log self ! j)"
  shows "verify_integrity now (self\<lparr>audit_log := log'\<rparr>) = verify_integrity now self"
proof -
  have lm: "link_mismatch log' j = link_mismatch (audit_log self) j" if "j < length log'" for j
  proof -
    have "j - 1 < length log'" using that by simp
    with same that show ?thesis
      by (simp add: link_mismatch_def expected_hash_def)
  qed
  have mi: "mismatch_issue (log' ! j) = mismatch_issue (audit_log self ! j)"
    if "j < length log'" for j
    using same that by (simp add: mismatch_issue_def)
  have f: "filter (link_mismatch log') [0..<length log'] =
           filter (link_mismatch (audit_log self)) [0..<length log']"
    by (rule filter_cong) (simp_all add: lm)
  have m: "map (\<lambda>i. mismatch_issue (log' ! i)) (filter (link_mismatch (audit_log self)) [0..<length log']) =
           map (\<lambda>i. mismatch_issue (audit_log self ! i)) (filter (link_mismatch (audit_log self)) [0..<length log'])"
    by (rule map_cong) (simp_all add: mi)
  have a: "(\<forall>i<length log'. \<not> link_mismatch log' i) = (\<forall>i<length log'. \<not> link_mismatch (audit_log self) i)"
    using lm by blast
  show ?thesis
    by (simp add: verify_integrity_result f m a) (simp add: len)
qed

lemma hash_entry_1_tampered:
  "hash_entry_data (entry_data (entry_1\<lparr>description := ''OR1ON System fully initialised''\<rparr>)) =
     ''f876779347a9d0020756db97815d87b7053f8cfea2a34471a030d957fbfddf35''"
  using digest_entry_1_tampered
  by (simp add: hash_entry_data_def json_dumps_entry_data entry_1_def json_string_def
      json_escape_char_def quote_char_def backslash_def)

text \<open>
  C3, as amended: \<open>verify_integrity\<close> returns on every trail and lists, in log order,
  exactly the entries whose stored hash differs from the digest recomputed over
  \<open>event_id\<close>, \<open>timestamp\<close>, \<open>event_type\<close>, \<open>description\<close> and, after the first
  entry, the stored hash of the entry before; it goes through the whole log and the
  verdict is false as soon as one entry is listed. So when an entry that verified is
  replaced by one with the same stored hash whose recomputed digest is another one, the
  new entry is listed; and changing \<open>actor\<close>, \<open>metadata\<close> or \<open>sensitivity\<close> of an
  entry changes nothing in the result, since the digest does not cover them.
\<close>

theorem verify_integrity_collects:
  "verify_integrity now self =
     Inr \<lparr>v_timestamp = now, v_total_events = length (audit_log self),
          integrity_verified = (\<forall>i < length (audit_log self). \<not> link_mismatch (audit_log self) i),
          issues = map (\<lambda>i. mismatch_issue (audit_log self ! i))
                     (filter (link_mismatch (audit_log self)) [0..<length (audit_log self)])\<rparr> \<and>
   (i < length (audit_log self) \<and> chain_hash e' = chain_hash (audit_log self ! i) \<and>
    \<not> link_mismatch (audit_log self) i \<and>
    expected_hash ((audit_log self)[i := e']) i \<noteq> expected_hash (audit_log self) i \<longrightarrow>
      (\<exists>v. verify_integrity now (self\<lparr>audit_log := (audit_log self)[i := e']\<rparr>) = Inr v \<and>
           \<not> integrity_verified v \<and> mismatch_issue e' \<in> set (issues v))) \<and>
   (i < length (audit_log self) \<longrightarrow>
      verify_integrity now
        (self\<lparr>audit_log := (audit_log self)
           [i := (audit_log self ! i)\<lparr>actor := a, metadata := m, sensitivity := s\<rparr>]\<rparr>) =
      verify_integrity now self)"
proof (intro conjI impI)
  show "verify_integrity now self =
     Inr \<lparr>v_timestamp = now, v_total_events = length (audit_log self),
          integrity_verified = (\<forall>i < length (audit_log self). \<not> link_mismatch (audit_log self) i),
          issues = map (\<lambda>i. mismatch_issue (audit_log self ! i))
                     (filter (link_mismatch (audit_log self)) [0..<length (audit_log self)])\<rparr>"
    by (rule verify_integrity_result)
next
  assume h: "i < length (audit_log self) \<and> chain_hash e' = chain_hash (audit_log self ! i) \<and>
    \<not> link_mismatch (audit_log self) i \<and>
    expected_hash ((audit_log self)[i := e']) i \<noteq> expected_hash (audit_log self) i"
  let ?log' = "(audit_log self)[i := e']"
  from h have i: "i < length ?log'" by simp
  from h have lm: "link_mismatch ?log' i"
    by (auto simp add: link_mismatch_def)
  have mem: "i \<in> set (filter (link_mismatch ?log') [0..<length ?log'])"
    using i lm by simp
  have "mismatch_issue (?log' ! i) \<in>
          set (map (\<lambda>j. mismatch_issue (?log' ! j)) (filter (link_mismatch ?log') [0..<length ?log']))"
    using mem unfolding set_map by (rule imageI)
  moreover have "?log' ! i = e'" using h by simp
  ultimately have iss: "mismatch_issue e' \<in>
          set (map (\<lambda>j. mismatch_issue (?log' ! j)) (filter (link_mismatch ?log') [0..<length ?log']))"
    by simp
  have nv: "\<not> (\<forall>j < length ?log'. \<not> link_mismatch ?log' j)"
    using i lm by blast
  show "\<exists>v. verify_integrity now (self\<lparr>audit_log := ?log'\<rparr>) = Inr v \<and>
           \<not> integrity_verified v \<and> mismatch_issue e' \<in> set (issues v)"
    using iss nv by (simp add: verify_integrity_result)
next
  assume i: "i < length (audit_log self)"
  show "verify_integrity now
        (self\<lparr>audit_log := (audit_log self)
           [i := (audit_log self ! i)\<lparr>actor := a, metadata := m, sensitivity := s\<rparr>]\<rparr>) =
      verify_integrity now self"
    using i by (intro verify_integrity_same_hashed_fields)
       (auto simp add: nth_list_update entry_data_def)
qed

text \<open>
  C3 as stated fails for the fields the digest leaves out: after \<open>actor\<close> of the only
  entry of a one-call log is changed, \<open>verify_integrity\<close> still reports no issue.
\<close>

theorem tampered_actor_counterexample:
  "log_events [call_1] AuditTrail_init = Inr trail_1 \<and>
   verify_integrity ''2024-01-01T12:00:02.000000''
       (trail_1\<lparr>audit_log := [entry_1\<lparr>actor := ''Mallory''\<rparr>]\<rparr>) =
     Inr \<lparr>v_timestamp = ''2024-01-01T12:00:02.000000'', v_total_events = 1,
          integrity_verified = True, issues = []\<rparr>"
proof -
  have e: "entry_data (entry_1\<lparr>actor := ''Mallory''\<rparr>) = entry_data entry_1"
    by (simp add: entry_data_def)
  have "\<not> link_mismatch [entry_1\<lparr>actor := ''Mallory''\<rparr>] 0"
    by (simp add: link_mismatch_def expected_hash_def e hash_entry_1) (simp add: entry_1_def)
  then have "verify_integrity ''2024-01-01T12:00:02.000000''
       (trail_1\<lparr>audit_log := [entry_1\<lparr>actor := ''Mallory''\<rparr>]\<rparr>) =
     Inr \<lparr>v_timestamp = ''2024-01-01T12:00:02.000000'', v_total_events = 1,
          integrity_verified = True, issues = []\<rparr>"
    by (simp add: verify_integrity_result)
  with log_events_call_1 show ?thesis by (rule conjI)
qed

text \<open>
  The amended C3 on the one-call log: the untouched entry verifies, a changed
  description gets it listed, and a changed actor, metadata and sensitivity do not.
\<close>

theorem verify_integrity_collects_witness:
  "\<not> link_mismatch (audit_log trail_1) 0 \<and>
   map_sum id (\<lambda>v. (integrity_verified v, issues v))
     (verify_integrity ''2024-01-01T12:00:02.000000''
        (trail_1\<lparr>audit_log := (audit_log trail_1)
           [0 := entry_1\<lparr>description := ''OR1ON System fully initialised''\<rparr>]\<rparr>)) =
     Inr (False, [\<lparr>issue_event_id = ''73e30ab01a24c300'', issue = ''Chain hash mismatch''\<rparr>]) \<and>
   verify_integrity ''2024-01-01T12:00:02.000000''
        (trail_1\<lparr>audit_log := (audit_log trail_1)
           [0 := (audit_log trail_1 ! 0)\<lparr>actor := ''Mallory'', metadata := [], sensitivity := ''internal''\<rparr>]\<rparr>) =
     verify_integrity ''2024-01-01T12:00:02.000000'' trail_1"
proof -
  let ?e = "entry_1\<lparr>description := ''OR1ON System fully initialised''\<rparr>"
  have len: "0 < length (audit_log trail_1)" by (simp add: trail_1_def)
  have ch: "chain_hash ?e = chain_hash (audit_log trail_1 ! 0)" by (simp add: trail_1_def)
  have ok: "\<not> link_mismatch (audit_log trail_1) 0"
    by (simp add: link_mismatch_def expected_hash_def trail_1_def hash_entry_1)
       (simp add: entry_1_def)
  have diff: "expected_hash ((audit_log trail_1)[0 := ?e]) 0 \<noteq> expected_hash (audit_log trail_1) 0"
    by (simp add: expected_hash_def trail_1_def hash_entry_1 hash_entry_1_tampered)
  note mut = verify_integrity_collects [where now = "''2024-01-01T12:00:02.000000''"
      and self = trail_1 and i = 0 and e' = ?e and a = "''Mallory''" and m = "[]"
      and s = "''internal''"]
  from mut len ch ok diff obtain v where
    v: "verify_integrity ''2024-01-01T12:00:02.000000''
          (trail_1\<lparr>audit_log := (audit_log trail_1)[0 := ?e]\<rparr>) = Inr v"
    and nv: "\<not> integrity_verified v" and iss: "mismatch_issue ?e \<in> set (issues v)"
    by blast
  have lm: "link_mismatch [?e] 0"
    using diff ok ch by (auto simp add: link_mismatch_def trail_1_def)
  have "issues v = [mismatch_issue ?e]"
    using v lm by (auto simp add: verify_integrity_result trail_1_def)
  then have "map_sum id (\<lambda>v. (integrity_verified v, issues v))
     (verify_integrity ''2024-01-01T12:00:02.000000''
        (trail_1\<lparr>audit_log := (audit_log trail_1)[0 := ?e]\<rparr>)) =
     Inr (False, [\<lparr>issue_event_id = ''73e30ab01a24c300'', issue = ''Chain hash mismatch''\<rparr>])"
    using v nv by (simp add: mismatch_issue_def entry_1_def)
  moreover from mut len have "verify_integrity ''2024-01-01T12:00:02.000000''
        (trail_1\<lparr>audit_log := (audit_log trail_1)
           [0 := (audit_log trail_1 ! 0)\<lparr>actor := ''Mallory'', metadata := [], sensitivity := ''internal''\<rparr>]\<rparr>) =
     verify_integrity ''2024-01-01T12:00:02.000000'' trail_1"
    by blast
  ultimately show ?thesis using ok by blast
qed

section \<open>Queries and the public export\<close>

lemma filter_field_eq:
  "filter_field f key field results =
     filter (\<lambda>e. case map_of f key of None \<Rightarrow> True | Some v \<Rightarrow> field e = v) results"
  by (simp add: filter_field_def split: option.split)

text \<open>
  C9, as amended: \<open>query_events\<close> returns the entries of the log, in log order, that
  match every field given in \<open>filters\<close> (\<open>event_type\<close>, \<open>actor\<close>, \<open>sensitivity\<close>,
  each compared for equality; a field left out does not constrain), whose timestamp is at
  or after \<open>start_time\<close> and, when \<open>end_time\<close> is a non-empty string, at or before
  it. An empty \<open>end_time\<close> is no bound at all. Without filters and bounds the result is
  the whole log, and the result is always a list, empty when nothing matches.
\<close>

theorem query_events_filter:
  "query_events filters start_time end_time self =
     filter (\<lambda>e.
        (case filters of
           None \<Rightarrow> True
         | Some f \<Rightarrow>
             (case map_of f ''event_type'' of None \<Rightarrow> True | Some v \<Rightarrow> event_type e = v) \<and>
             (case map_of f ''actor'' of None \<Rightarrow> True | Some v \<Rightarrow> actor e = v) \<and>
             (case map_of f ''sensitivity'' of None \<Rightarrow> True | Some v \<Rightarrow> sensitivity e = v)) \<and>
        (case start_time of None \<Rightarrow> True | Some s \<Rightarrow> s \<le> timestamp e) \<and>
        (case end_time of None \<Rightarrow> True | Some s \<Rightarrow> s = [] \<or> timestamp e \<le> s))
       (audit_log self) \<and>
   query_events None None None self = audit_log self"
  apply (cases filters; cases start_time; cases end_time)
  apply (auto simp add: query_events_def filter_field_eq Let_def conj_commute conj_left_commute intro!: filter_cong split: option.splits)
  done

text \<open>
  The amended C9 on the two-call log: a filter with both bounds (the upper one equal to
  the entry's timestamp), a query that matches nothing, and the query without arguments.
\<close>

theorem query_events_filter_witness:
  "query_events (Some [(''actor'', ''Kernel'')]) (Some ''2024-01-01T12:00:01'')
     (Some ''2024-01-01T12:00:01.250310'') trail_2 = [entry_2] \<and>
   query_events (Some [(''event_type'', ''security_event'')]) None
     (Some ''2024-01-01T12:00:01.250309'') trail_2 = [] \<and>
   query_events None None None trail_2 = [entry_1, entry_2]"
  using query_events_filter [of "Some [(''actor'', ''Kernel'')]" "Some ''2024-01-01T12:00:01''"
     "Some ''2024-01-01T12:00:01.250310''" trail_2]
   query_events_filter [of "Some [(''event_type'', ''security_event'')]" None
     "Some ''2024-01-01T12:00:01.250309''" trail_2]
   query_events_filter [of None None None trail_2]
  by (simp add: trail_2_def entry_1_def entry_2_def)

text \<open>
  C9 as stated fails for \<open>end_time = ""\<close>: no timestamp of the two-call log is at or
  before the empty string, and the query returns both entries.
\<close>

theorem query_events_empty_end_time_counterexample:
  "log_events [call_1, call_2] AuditTrail_init = Inr trail_2 \<and>
   query_events None None (Some []) trail_2 = [entry_1, entry_2] \<and>
   \<not> timestamp entry_1 \<le> [] \<and> \<not> timestamp entry_2 \<le> []"
proof -
  have "query_events None None (Some []) trail_2 = [entry_1, entry_2]"
    by (simp add: query_events_def trail_2_def)
  moreover have "\<not> timestamp entry_1 \<le> [] \<and> \<not> timestamp entry_2 \<le> []"
    by (simp add: entry_1_def entry_2_def)
  ultimately show ?thesis using log_events_call_2 by blast
qed

text \<open>
  C8 as stated fails: a filter whose only key is unknown returns both entries of the
  two-call log, not an empty result.
\<close>

theorem query_events_unknown_key_counterexample:
  "log_events [call_1, call_2] AuditTrail_init = Inr trail_2 \<and>
   query_events (Some [(''category'', ''security'')]) None None trail_2 = [entry_1, entry_2]"
proof -
  have "query_events (Some [(''category'', ''security'')]) None None trail_2 = [entry_1, entry_2]"
    by (simp add: query_events_def filter_field_def trail_2_def)
  with log_events_call_2 show ?thesis by (rule conjI)
qed

text \<open>
  C8, as amended: a key of \<open>filters\<close> other than \<open>event_type\<close>, \<open>actor\<close> and
  \<open>sensitivity\<close> is ignored. The query returns what it returns without that key, and a
  filter made of such a key alone, with no time bounds, returns the whole log; it never
  fails.
\<close>

theorem query_events_ignores_unknown_key:
  "k \<notin> {''event_type'', ''actor'', ''sensitivity''} \<longrightarrow>
     query_events (Some ((k, v) # f)) start_time end_time self =
       query_events (Some f) start_time end_time self \<and>
     query_events (Some [(k, v)]) None None self = audit_log self"
  by (cases "f = []") (simp_all add: query_events_def filter_field_def)

text \<open>The amended C8 on the two-call log, with a known key beside the unknown one.\<close>

theorem query_events_ignores_unknown_key_witness:
  "''category'' \<notin> {''event_type'', ''actor'', ''sensitivity''} \<and>
   query_events (Some [(''category'', ''security''), (''actor'', ''System'')]) None None trail_2 =
     query_events (Some [(''actor'', ''System'')]) None None trail_2 \<and>
   query_events (Some [(''actor'', ''System'')]) None None trail_2 = [entry_1]"
proof -
  have "query_events (Some [(''actor'', ''System'')]) None None trail_2 = [entry_1]"
    by (simp add: query_events_def filter_field_def trail_2_def entry_1_def entry_2_def)
  then show ?thesis
    using query_events_ignores_unknown_key [of "''category''" "''security''"
      "[(''actor'', ''System'')]" None None trail_2]
    by simp
qed

text \<open>
  C6: \<open>export_public_audit_data\<close> returns on every trail; its events are the entries
  of the log whose sensitivity is \<open>public\<close>, in log order and no others, each reduced to
  the five keys \<open>event_id\<close>, \<open>timestamp\<close>, \<open>event_type\<close>, \<open>description\<close>, \<open>actor\<close>:
  no \<open>metadata\<close> and no \<open>chain_hash\<close>.
\<close>

theorem export_public_only:
  "\<exists>ex. export_public_audit_data now now_verify self = Inr ex \<and>
      events ex = map public_event (filter (\<lambda>e. sensitivity e = ''public'') (audit_log self)) \<and>
      total_public_events ex = length (events ex) \<and>
      (\<forall>ev \<in> set (events ex).
          map fst ev = [''event_id'', ''timestamp'', ''event_type'', ''description'', ''actor''] \<and>
          (\<exists>e \<in> set (audit_log self). sensitivity e = ''public'' \<and> ev = public_event e))"
  by (auto simp add: export_public_audit_data_def verify_integrity_result public_event_def)

text \<open>C6 on the two-call log: the internal entry is left out of the export.\<close>

theorem export_public_only_witness:
  "map_sum id events (export_public_audit_data ''2024-01-01T12:00:03.000000''
       ''2024-01-01T12:00:03.000020'' trail_2) =
     Inr [[(''event_id'', ''73e30ab01a24c300''), (''timestamp'', ''2024-01-01T12:00:00.000105''),
           (''event_type'', ''system_initialization''),
           (''description'', ''OR1ON System fully initialized''), (''actor'', ''System'')]]"
proof -
  from export_public_only [of "''2024-01-01T12:00:03.000000''" "''2024-01-01T12:00:03.000020''" trail_2]
  obtain ex where ex: "export_public_audit_data ''2024-01-01T12:00:03.000000''
       ''2024-01-01T12:00:03.000020'' trail_2 = Inr ex"
    and ev: "events ex = map public_event (filter (\<lambda>e. sensitivity e = ''public'') (audit_log trail_2))"
    by blast
  have "events ex = [public_event entry_1]"
    unfolding ev by (simp add: trail_2_def entry_1_def entry_2_def)
  then show ?thesis
    by (simp add: ex public_event_def entry_1_def)
qed

section \<open>Statistics\<close>

lemma py_index_first: "xs \<noteq> [] \<Longrightarrow> py_index xs 0 = Inr (hd xs)"
  by (cases xs) (simp_all add: py_index_def)

lemma py_index_last: "xs \<noteq> [] \<Longrightarrow> py_index xs (- 1) = Inr (last xs)"
  by (cases xs rule: rev_cases) (simp_all add: py_index_def nth_append)

text \<open>
  C10: \<open>get_statistics\<close> returns on every state of the trail, however its fields were
  set; on a trail with an empty log the result has \<open>total_events = 0\<close>, an empty
  \<open>event_types\<close> dictionary, \<open>public_events = 0\<close> and \<open>None\<close> for both the oldest and the
  newest event, and on a non-empty log the two timestamps are those of the first and the
  last entry.
\<close>

theorem get_statistics_total:
  "(\<exists>st. get_statistics self = Inr st) \<and>
   (audit_log self = [] \<longrightarrow>
      get_statistics self =
        Inr \<lparr>total_events = 0, event_types = [], public_events = 0,
             chain_length = length (chain_integrity self),
             oldest_event = None, newest_event = None\<rparr>) \<and>
   (audit_log self \<noteq> [] \<longrightarrow>
      (\<exists>st. get_statistics self = Inr st \<and>
            oldest_event st = Some (timestamp (hd (audit_log self))) \<and>
            newest_event st = Some (timestamp (last (audit_log self)))))"
proof (cases "audit_log self = []")
  case True
  then show ?thesis by (simp add: get_statistics_def)
next
  case False
  then show ?thesis by (simp add: get_statistics_def py_index_first py_index_last)
qed

theorem get_statistics_total_witness:
  "get_statistics AuditTrail_init =
     Inr \<lparr>total_events = 0, event_types = [], public_events = 0, chain_length = 0,
          oldest_event = None, newest_event = None\<rparr>"
  using get_statistics_total [of AuditTrail_init] by (simp add: AuditTrail_init_def)

end
